theory Spec2Isabelle
  imports Complex_Main "HOL-Library.Product_Lexorder" "HOL-Library.Log_Nat"
begin

section \<open>Data model (app/models.py, alembic/versions)\<close>

text \<open>
  The three enums of models.py. The database stores them by value; the string values
  matter where the seed catalog is read (\<open>ProjectStatus(project_data["status"])\<close>).
\<close>

datatype ProjectStatus = LOCKED | UNLOCKED | IN_PROGRESS | DONE

datatype Priority = LOW | MEDIUM | HIGH

datatype SessionType = FOCUS | POMODORO | MANUAL

text \<open>The JSON items of a project's checklist and resources (schemas.SubTask, schemas.Resource).\<close>

record SubTask =
  subtask_id :: string
  subtask_text :: string
  isCompleted :: bool

record Resource =
  resource_id :: string
  resource_label :: string
  resource_url :: string

text \<open>
  Table \<open>users\<close>. Timestamps are points of an abstract clock (natural numbers); the
  server default \<open>now()\<close> is passed to the creating operation as an argument.
\<close>

record User =
  u_id :: string
  email :: string
  username :: string
  hashed_password :: string
  u_created_at :: nat

text \<open>
  Table \<open>user_profiles\<close>, with the columns of migration 0001 and the customisation
  columns migration 0002 adds (\<open>is_public\<close> has the server default false).
  Python's \<open>int\<close> is unbounded, so \<open>xp\<close> and \<open>level\<close> are \<open>int\<close>.
\<close>

record UserProfile =
  profile_id :: string
  profile_user_id :: string
  xp :: int
  profile_level :: int
  unlocked_badges :: "string list"
  avatar_url :: "string option"
  banner_url :: "string option"
  is_public :: bool
  show_in_progress :: bool
  show_personal_cv :: bool
  show_generated_cv :: bool
  cv_config :: "string option"

text \<open>
  Table \<open>projects\<close>. \<open>p_id\<close> is the column \<open>id\<close>, the primary key of the table on its
  own. A Python float is modelled by the rational number it denotes (every finite
  double is a rational), so \<open>time_spent_hours\<close> and the coordinates are \<open>rat\<close>.

  The five JSON columns (\<open>position\<close>, \<open>dependencies\<close>, \<open>tech_stack\<close>, \<open>checklist\<close>,
  \<open>resources\<close>) hold a JSON value. The column type \<open>JSON\<close> is used with its default
  \<open>none_as_null=False\<close>, so Python's \<open>None\<close> is stored as the JSON value \<open>null\<close>, which
  the NOT NULL constraint of the column accepts, and is read back as \<open>None\<close>. Each of
  these columns is therefore an optional value, \<open>None\<close> being that null.
\<close>

record Project =
  p_id :: string
  user_id :: string
  title :: string
  level :: int
  status :: ProjectStatus
  category :: string
  description :: string
  position :: "(rat \<times> rat) option"
  dependencies :: "string list option"
  tech_stack :: "string list option"
  checklist :: "SubTask list option"
  resources :: "Resource list option"
  complexity :: "int option"
  priority :: "Priority option"
  github_url :: "string option"
  p_notes :: "string option"
  time_spent_hours :: rat
  created_at :: nat
  completed_at :: "nat option"

text \<open>Table \<open>work_sessions\<close>.\<close>

record WorkSession =
  ws_id :: string
  ws_project_id :: string
  start_time :: int
  end_time :: "int option"
  duration_seconds :: int
  ws_type :: SessionType
  ws_notes :: "string option"
  task_id :: "string option"

text \<open>
  The database: one list of rows per table. The session's pending changes and the flush
  are folded into the state: an operation takes the database and returns the new one.
\<close>

record db =
  users :: "User list"
  user_profiles :: "UserProfile list"
  projects :: "Project list"
  work_sessions :: "WorkSession list"

text \<open>
  What an operation can end with instead of a result: the HTTP errors the routes raise,
  the request validation of pydantic (status 422), and the exceptions of the store
  (\<open>IntegrityError\<close> for a constraint, \<open>DBAPIError\<close> for a value the driver refuses), of
  the enum constructor, of integer division and of iterating over \<open>None\<close>
  (\<open>TypeError\<close>). An exception leaves the request through
  \<open>get_db\<close>, which rolls the session back: the error value carries no database, the
  state stays the one before the operation.
\<close>

datatype error =
    NotFound string
  | BadRequest string
  | ValidationError
  | IntegrityError
  | ValueError
  | ZeroDivisionError
  | OverflowError
  | TypeError
  | DBAPIError

text \<open>
  The backend is PostgreSQL through asyncpg (\<open>DATABASE_URL\<close> in core/config.py). An
  \<open>Integer\<close> column is a 32-bit signed integer and a \<open>String(n)\<close> column holds at most \<open>n\<close>
  characters; executing a statement with a value outside fails (\<open>DBAPIError\<close>). The
  request schemas bound the title, the level, the category, the complexity and the URL
  of a project; the operations below carry the check for the values no schema bounds.
\<close>

definition int4 :: "int \<Rightarrow> bool" where
  "int4 v \<longleftrightarrow> - (2 ^ 31) \<le> v \<and> v < 2 ^ 31"

definition varchar :: "nat \<Rightarrow> string \<Rightarrow> bool" where
  "varchar n s \<longleftrightarrow> length s \<le> n"

definition fits :: "('a \<Rightarrow> bool) \<Rightarrow> 'a option \<Rightarrow> bool" where
  "fits ok v = (case v of None \<Rightarrow> True | Some x \<Rightarrow> ok x)"

section \<open>Project queries (app/crud.py)\<close>

text \<open>
  \<open>select(Project).where(Project.user_id == user_id).order_by(Project.level,
  Project.created_at)\<close>: the user's rows, sorted on the pair (level, created_at).
\<close>

definition get_projects_by_user :: "db \<Rightarrow> string \<Rightarrow> Project list" where
  "get_projects_by_user d uid =
     sort_key (\<lambda>p. (level p, created_at p)) (filter (\<lambda>p. user_id p = uid) (projects d))"

text \<open>
  \<open>select(Project).where(Project.id == project_id, Project.user_id == user_id)\<close> with
  \<open>scalar_one_or_none\<close>. The primary key leaves at most one such row, so the first match
  is the match.
\<close>

definition get_project_by_id :: "db \<Rightarrow> string \<Rightarrow> string \<Rightarrow> Project option" where
  "get_project_by_id d project_id uid =
     find (\<lambda>p. p_id p = project_id \<and> user_id p = uid) (projects d)"

text \<open>\<open>project.sessions\<close>: the rows of work_sessions whose foreign key is the project.\<close>

definition sessions :: "db \<Rightarrow> Project \<Rightarrow> WorkSession list" where
  "sessions d project = filter (\<lambda>s. ws_project_id s = p_id project) (work_sessions d)"

text \<open>
  The unit of work: the objects a query returned are the rows themselves, and the flush
  writes every object back to the row with its primary key.
\<close>

definition flush_projects :: "Project list \<Rightarrow> Project list \<Rightarrow> Project list" where
  "flush_projects objs rows =
     map (\<lambda>row. case find (\<lambda>obj. p_id obj = p_id row) objs of
                   Some obj \<Rightarrow> obj
                 | None \<Rightarrow> row) rows"

section \<open>Dependency resolver (crud.check_project_dependencies)\<close>

text \<open>
  A \<open>for\<close> loop over objects whose body may raise: the loop ends at the first exception,
  which is then the outcome of the loop; otherwise every object has been through the body.
\<close>

fun for_each :: "('a \<Rightarrow> error + 'a) \<Rightarrow> 'a list \<Rightarrow> error + 'a list" where
  "for_each body [] = Inr []"
| "for_each body (x # xs) =
     (case body x of
        Inl e \<Rightarrow> Inl e
      | Inr y \<Rightarrow>
          (case for_each body xs of
             Inl e \<Rightarrow> Inl e
           | Inr ys \<Rightarrow> Inr (y # ys)))"

text \<open>
  The body of the loop over the user's projects, for one project; \<open>completed_ids\<close> is
  computed before the loop and not changed by it. A project that is done or in progress
  is skipped before its dependencies are read. For any other project the generator
  iterates over \<open>project.dependencies\<close>, which raises TypeError when the column holds
  null.
\<close>

definition check_one :: "string set \<Rightarrow> Project \<Rightarrow> error + Project" where
  "check_one completed_ids project =
     (if status project \<in> {DONE, IN_PROGRESS} then Inr project
      else
        (case dependencies project of
           None \<Rightarrow> Inl TypeError
         | Some deps \<Rightarrow>
             let all_deps_met = list_all (\<lambda>dep_id. dep_id \<in> completed_ids) deps
             in if all_deps_met \<and> status project = LOCKED
                then Inr (project\<lparr>status := UNLOCKED\<rparr>)
                else if \<not> all_deps_met \<and> status project = UNLOCKED
                then Inr (project\<lparr>status := LOCKED\<rparr>)
                else Inr project))"

definition check_project_dependencies :: "db \<Rightarrow> string \<Rightarrow> error + db" where
  "check_project_dependencies d uid =
     (let projs = get_projects_by_user d uid;
          completed_ids = set (map p_id (filter (\<lambda>p. status p = DONE) projs))
      in case for_each (check_one completed_ids) projs of
           Inl e \<Rightarrow> Inl e
         | Inr objs \<Rightarrow> Inr (d\<lparr>projects := flush_projects objs (projects d)\<rparr>))"


section \<open>Python floats: \<open>total_seconds / 3600\<close> and \<open>round(x, 1)\<close>\<close>

text \<open>
  A finite double is the rational it denotes. \<open>round_half_even\<close> is rounding to the nearest
  integer, a tie going to the even one: the rounding of IEEE 754 arithmetic and of the
  decimal conversion behind \<open>round\<close>.
\<close>

definition round_half_even :: "rat \<Rightarrow> int" where
  "round_half_even q =
     (let f = \<lfloor>q\<rfloor>; r = q - of_int f
      in if r < 1 / 2 then f
         else if 1 / 2 < r then f + 1
         else if even f then f else f + 1)"

text \<open>The exponent \<open>e\<close> with \<open>2 ^ e \<le> |q| < 2 ^ (e + 1)\<close>, for \<open>q \<noteq> 0\<close>.\<close>

definition binade :: "rat \<Rightarrow> int" where
  "binade q =
     (let (a, b) = quotient_of \<bar>q\<bar>; e0 = bitlen a - bitlen b
      in if 2 powi e0 \<le> \<bar>q\<bar> then e0 else e0 - 1)"

text \<open>
  The double nearest to a rational (binary64: 53 significant bits, least exponent -1074
  for the subnormal numbers); the caller checks the overflow.
\<close>

definition to_double :: "rat \<Rightarrow> rat" where
  "to_double q =
     (if q = 0 then 0
      else let u = 2 powi (max (binade q - 52) (- 1074))
           in of_int (round_half_even (q / u)) * u)"

text \<open>
  \<open>a / b\<close> on Python integers: the correctly rounded quotient, ZeroDivisionError for a
  zero divisor, OverflowError when the quotient is too large for a float.
\<close>

definition int_truediv :: "int \<Rightarrow> int \<Rightarrow> error + rat" where
  "int_truediv a b =
     (if b = 0 then Inl ZeroDivisionError
      else let x = to_double (of_int a / of_int b)
           in if 2 ^ 1024 \<le> \<bar>x\<bar> then Inl OverflowError else Inr x)"

text \<open>
  \<open>round(x, ndigits)\<close> on a float, for \<open>ndigits \<ge> 0\<close>: the value of \<open>x\<close> is rounded, half to
  even, to \<open>ndigits\<close> decimal places, and the decimal is converted back to the nearest
  double.
\<close>

definition float_round :: "rat \<Rightarrow> nat \<Rightarrow> rat" where
  "float_round x ndigits =
     to_double (of_int (round_half_even (x * 10 ^ ndigits)) / 10 ^ ndigits)"

text \<open>\<open>round(total_seconds / 3600, 1)\<close>, as both project operations write it.\<close>

definition hours_of_seconds :: "int \<Rightarrow> error + rat" where
  "hours_of_seconds total_seconds =
     (case int_truediv total_seconds 3600 of
        Inl e \<Rightarrow> Inl e
      | Inr x \<Rightarrow> Inr (float_round x 1))"


section \<open>Request schemas (app/schemas.py)\<close>

text \<open>
  \<open>ProjectCreate\<close>. The route receives a validated instance, so the field constraints
  (lengths, \<open>1 \<le> level \<le> 10\<close>, \<open>1 \<le> complexity \<le> 5\<close>) hold of every value the store sees.
\<close>

record ProjectCreate =
  pc_id :: "string option"
  pc_title :: string
  pc_level :: int
  pc_category :: string
  pc_description :: string
  pc_position :: "rat \<times> rat"
  pc_dependencies :: "string list"
  pc_tech_stack :: "string list"
  pc_complexity :: "int option"
  pc_priority :: "Priority option"

text \<open>
  \<open>ProjectUpdate\<close> after \<open>model_dump(exclude_unset=True)\<close>. Every field of the schema is
  \<open>Optional\<close>, so a request can leave a field unset (\<open>None\<close> here), send an explicit null
  (\<open>Some None\<close>) or send a value (\<open>Some (Some v)\<close>).
\<close>

record ProjectUpdate =
  pu_title :: "string option option"
  pu_level :: "int option option"
  pu_status :: "ProjectStatus option option"
  pu_category :: "string option option"
  pu_description :: "string option option"
  pu_position :: "(rat \<times> rat) option option"
  pu_dependencies :: "string list option option"
  pu_tech_stack :: "string list option option"
  pu_complexity :: "int option option"
  pu_priority :: "Priority option option"
  pu_checklist :: "SubTask list option option"
  pu_resources :: "Resource list option option"
  pu_github_url :: "string option option"
  pu_notes :: "string option option"
  pu_time_spent_hours :: "rat option option"
  pu_completed_at :: "string option option"

record WorkSessionCreate =
  wc_start_time :: int
  wc_end_time :: "int option"
  wc_duration_seconds :: int
  wc_type :: SessionType
  wc_notes :: "string option"
  wc_task_id :: "string option"

section \<open>Project operations (app/crud.py)\<close>

text \<open>
  \<open>db.add(project)\<close> and the flush: the insert fails on an id longer than the column
  \<open>String(50)\<close>, on a primary key that is already in the table (the key is \<open>id\<close> alone,
  whoever owns the row, and the new rows must differ among themselves) and on an owner
  that is not a row of \<open>users\<close> (the foreign key).
\<close>

definition insert_projects :: "db \<Rightarrow> Project list \<Rightarrow> error + db" where
  "insert_projects d new =
     (if list_ex (\<lambda>p. \<not> varchar 50 (p_id p)) new then Inl DBAPIError
      else if distinct (map p_id new)
         \<and> list_all (\<lambda>p. p_id p \<notin> set (map p_id (projects d))) new
         \<and> list_all (\<lambda>p. user_id p \<in> set (map u_id (users d))) new
      then Inr (d\<lparr>projects := projects d @ new\<rparr>)
      else Inl IntegrityError)"

text \<open>
  \<open>create_project\<close>. \<open>uuid\<close> is the value of \<open>generate_id()\<close> and \<open>now\<close> the server time.
  Python's \<open>or\<close> takes the generated id for a missing id and for the empty string.
  The function returns the object it created, which the resolver pass has updated.
\<close>

definition create_project :: "db \<Rightarrow> string \<Rightarrow> ProjectCreate \<Rightarrow> string \<Rightarrow> nat \<Rightarrow> error + db \<times> Project" where
  "create_project d uid project_data uuid now =
     (let project_id = (case pc_id project_data of
                          None \<Rightarrow> ''custom_'' @ take 8 uuid
                        | Some i \<Rightarrow> if i = [] then ''custom_'' @ take 8 uuid else i);
          project = \<lparr>p_id = project_id, user_id = uid, title = pc_title project_data,
                     level = pc_level project_data, status = LOCKED,
                     category = pc_category project_data,
                     description = pc_description project_data,
                     position = Some (pc_position project_data),
                     dependencies = Some (pc_dependencies project_data),
                     tech_stack = Some (pc_tech_stack project_data),
                     checklist = Some [], resources = Some [],
                     complexity = pc_complexity project_data,
                     priority = pc_priority project_data,
                     github_url = None, p_notes = None, time_spent_hours = 0,
                     created_at = now, completed_at = None\<rparr>
      in case insert_projects d [project] of
           Inl e \<Rightarrow> Inl e
         | Inr d1 \<Rightarrow>
             (case check_project_dependencies d1 uid of
                Inl e \<Rightarrow> Inl e
              | Inr d2 \<Rightarrow>
                  (case find (\<lambda>p. p_id p = project_id) (projects d2) of
                     None \<Rightarrow> Inr (d2, project)
                   | Some p \<Rightarrow> Inr (d2, p))))"

text \<open>
  The loop \<open>setattr(project, field, value)\<close> over the fields that are set. A JSON column
  and a nullable column take the value or the null (\<open>set_field\<close>). A column that is
  neither keeps \<open>None\<close> on the object until the flush, which then fails (below), so
  \<open>set_column\<close> only has to write a value.
\<close>

definition set_field :: "'a option \<Rightarrow> 'a \<Rightarrow> 'a" where
  "set_field v old = (case v of None \<Rightarrow> old | Some x \<Rightarrow> x)"

definition set_column :: "'a option option \<Rightarrow> 'a \<Rightarrow> 'a" where
  "set_column v old = (case v of Some (Some x) \<Rightarrow> x | _ \<Rightarrow> old)"

definition apply_update :: "ProjectUpdate \<Rightarrow> Project \<Rightarrow> Project" where
  "apply_update u p =
     p\<lparr>title := set_column (pu_title u) (title p),
       level := set_column (pu_level u) (level p),
       status := set_column (pu_status u) (status p),
       category := set_column (pu_category u) (category p),
       description := set_column (pu_description u) (description p),
       position := set_field (pu_position u) (position p),
       dependencies := set_field (pu_dependencies u) (dependencies p),
       tech_stack := set_field (pu_tech_stack u) (tech_stack p),
       complexity := set_field (pu_complexity u) (complexity p),
       priority := set_field (pu_priority u) (priority p),
       checklist := set_field (pu_checklist u) (checklist p),
       resources := set_field (pu_resources u) (resources p),
       github_url := set_field (pu_github_url u) (github_url p),
       p_notes := set_field (pu_notes u) (p_notes p),
       time_spent_hours := set_column (pu_time_spent_hours u) (time_spent_hours p)\<rparr>"

text \<open>
  What the flush of the updated object fails on. \<open>completed_at\<close> is a string in the
  schema and a timestamp column in the table: the driver refuses a string parameter for
  it. A null written to a column with a NOT NULL constraint that is not a JSON column
  violates the constraint.
\<close>

definition is_value :: "'a option option \<Rightarrow> bool" where
  "is_value v = (case v of Some (Some x) \<Rightarrow> True | _ \<Rightarrow> False)"

definition is_null :: "'a option option \<Rightarrow> bool" where
  "is_null v = (case v of Some None \<Rightarrow> True | _ \<Rightarrow> False)"

definition flush_update :: "ProjectUpdate \<Rightarrow> error option" where
  "flush_update u =
     (if is_value (pu_completed_at u) then Some DBAPIError
      else if is_null (pu_title u) \<or> is_null (pu_level u) \<or> is_null (pu_status u)
              \<or> is_null (pu_category u) \<or> is_null (pu_description u)
              \<or> is_null (pu_time_spent_hours u)
      then Some IntegrityError
      else None)"

text \<open>
  \<open>update_project\<close>. When the project has sessions, the time computed from them replaces
  whatever \<open>time_spent_hours\<close> the request carried, before the fields are written. The
  result is the updated object, or \<open>None\<close> when the caller has no such project.
\<close>

definition update_project :: "db \<Rightarrow> string \<Rightarrow> string \<Rightarrow> ProjectUpdate \<Rightarrow> error + db \<times> Project option" where
  "update_project d project_id uid project_data =
     (case get_project_by_id d project_id uid of
        None \<Rightarrow> Inr (d, None)
      | Some project \<Rightarrow>
          (case (if sessions d project \<noteq> []
                 then (case hours_of_seconds (sum_list (map duration_seconds (sessions d project))) of
                         Inl e \<Rightarrow> Inl e
                       | Inr h \<Rightarrow> Inr (project_data\<lparr>pu_time_spent_hours := Some (Some h)\<rparr>))
                 else Inr project_data) of
             Inl e \<Rightarrow> Inl e
           | Inr update_data \<Rightarrow>
               (case flush_update update_data of
                  Some e \<Rightarrow> Inl e
                | None \<Rightarrow>
                    let d1 = d\<lparr>projects := flush_projects [apply_update update_data project]
                                             (projects d)\<rparr>
                    in case check_project_dependencies d1 uid of
                         Inl e \<Rightarrow> Inl e
                       | Inr d2 \<Rightarrow> Inr (d2, get_project_by_id d2 project_id uid))))"

text \<open>
  \<open>delete_project\<close>. The bulk \<open>update\<close> statement assigns the column to itself and changes
  no modelled column. The loop rewrites the dependency lists of the user's projects (the
  test \<open>project_id in p.dependencies\<close> raises TypeError on a null), \<open>db.delete\<close> removes
  the row and, by the cascade of the relationship, its sessions, and the resolver runs
  on what is left.
\<close>

definition remove_dependency :: "string \<Rightarrow> Project \<Rightarrow> error + Project" where
  "remove_dependency project_id p =
     (case dependencies p of
        None \<Rightarrow> Inl TypeError
      | Some deps \<Rightarrow>
          if project_id \<in> set deps
          then Inr (p\<lparr>dependencies := Some (filter (\<lambda>dep. dep \<noteq> project_id) deps)\<rparr>)
          else Inr p)"

definition delete_project :: "db \<Rightarrow> string \<Rightarrow> string \<Rightarrow> error + db \<times> bool" where
  "delete_project d project_id uid =
     (case get_project_by_id d project_id uid of
        None \<Rightarrow> Inr (d, False)
      | Some project \<Rightarrow>
          (case for_each (remove_dependency project_id) (get_projects_by_user d uid) of
             Inl e \<Rightarrow> Inl e
           | Inr objs \<Rightarrow>
               let d1 = d\<lparr>projects := flush_projects objs (projects d)\<rparr>;
                   d2 = d1\<lparr>projects := filter (\<lambda>p. p_id p \<noteq> p_id project) (projects d1),
                           work_sessions := filter (\<lambda>s. ws_project_id s \<noteq> p_id project)
                                               (work_sessions d1)\<rparr>
               in case check_project_dependencies d2 uid of
                    Inl e \<Rightarrow> Inl e
                  | Inr d3 \<Rightarrow> Inr (d3, True)))"

section \<open>Work sessions (app/crud.py)\<close>

text \<open>
  \<open>add_session_to_project\<close>. \<open>uuid\<close> is the value of \<open>generate_id()\<close>; the insert fails on a
  value that does not fit its column and on a session id that is already in the table.
  \<open>project.sessions\<close> was loaded with the project, before the new row, so the new
  duration is added to its sum.
\<close>

definition add_session_to_project ::
  "db \<Rightarrow> string \<Rightarrow> string \<Rightarrow> WorkSessionCreate \<Rightarrow> string \<Rightarrow> error + db \<times> WorkSession option" where
  "add_session_to_project d project_id uid session_data uuid =
     (case get_project_by_id d project_id uid of
        None \<Rightarrow> Inr (d, None)
      | Some project \<Rightarrow>
          let session = \<lparr>ws_id = uuid, ws_project_id = project_id,
                         start_time = wc_start_time session_data,
                         end_time = wc_end_time session_data,
                         duration_seconds = wc_duration_seconds session_data,
                         ws_type = wc_type session_data,
                         ws_notes = wc_notes session_data,
                         task_id = wc_task_id session_data\<rparr>
          in if \<not> (int4 (start_time session) \<and> fits int4 (end_time session)
                    \<and> int4 (duration_seconds session) \<and> fits (varchar 100) (task_id session))
             then Inl DBAPIError
             else if uuid \<in> set (map ws_id (work_sessions d)) then Inl IntegrityError
             else
               let total_seconds = sum_list (map duration_seconds (sessions d project))
                                     + wc_duration_seconds session_data
               in case hours_of_seconds total_seconds of
                    Inl e \<Rightarrow> Inl e
                  | Inr h \<Rightarrow>
                      Inr (d\<lparr>projects := flush_projects [project\<lparr>time_spent_hours := h\<rparr>] (projects d),
                             work_sessions := work_sessions d @ [session]\<rparr>,
                           Some session))"

text \<open>
  \<open>get_sessions_by_project\<close>: the empty list when the caller has no such project, else the
  project's sessions, latest start first.
\<close>

definition get_sessions_by_project :: "db \<Rightarrow> string \<Rightarrow> string \<Rightarrow> WorkSession list" where
  "get_sessions_by_project d project_id uid =
     (case get_project_by_id d project_id uid of
        None \<Rightarrow> []
      | Some project \<Rightarrow>
          sort_key (\<lambda>s. - start_time s)
            (filter (\<lambda>s. ws_project_id s = project_id) (work_sessions d)))"


section \<open>Users and profiles (app/crud.py)\<close>

text \<open>
  \<open>str.lower()\<close> on the ASCII letters; a character outside ASCII is left as it is.
\<close>

definition lower_char :: "char \<Rightarrow> char" where
  "lower_char c =
     (let n = (of_char c :: nat) in if 65 \<le> n \<and> n \<le> 90 then char_of (n + 32) else c)"

definition lower :: "string \<Rightarrow> string" where
  "lower s = map lower_char s"

definition get_user_by_id :: "db \<Rightarrow> string \<Rightarrow> User option" where
  "get_user_by_id d uid = find (\<lambda>u. u_id u = uid) (users d)"

definition get_user_by_email :: "db \<Rightarrow> string \<Rightarrow> User option" where
  "get_user_by_email d e = find (\<lambda>u. email u = lower e) (users d)"

definition get_user_by_username :: "db \<Rightarrow> string \<Rightarrow> User option" where
  "get_user_by_username d n = find (\<lambda>u. username u = lower n) (users d)"

definition get_profile_by_user_id :: "db \<Rightarrow> string \<Rightarrow> UserProfile option" where
  "get_profile_by_user_id d uid = find (\<lambda>p. profile_user_id p = uid) (user_profiles d)"

record UserCreate =
  uc_email :: string
  uc_username :: string
  uc_password :: string

text \<open>
  \<open>create_user\<close>. \<open>new_user_id\<close> and \<open>new_profile_id\<close> are the two values of
  \<open>generate_id()\<close>, \<open>get_password_hash\<close> the hash function of core/security.py. The flush
  fails on a duplicate primary key and on the unique columns (email, username, the
  profile's user).
\<close>

definition create_user ::
  "db \<Rightarrow> UserCreate \<Rightarrow> string \<Rightarrow> string \<Rightarrow> nat \<Rightarrow> (string \<Rightarrow> string) \<Rightarrow> error + db \<times> User" where
  "create_user d user_data new_user_id new_profile_id now get_password_hash =
     (let user = \<lparr>u_id = new_user_id, email = lower (uc_email user_data),
                  username = lower (uc_username user_data),
                  hashed_password = get_password_hash (uc_password user_data),
                  u_created_at = now\<rparr>;
          profile = \<lparr>profile_id = new_profile_id, profile_user_id = new_user_id, xp = 0,
                     profile_level = 1, unlocked_badges = [], avatar_url = None,
                     banner_url = None, is_public = False, show_in_progress = False,
                     show_personal_cv = False, show_generated_cv = False, cv_config = None\<rparr>
      in if new_user_id \<in> set (map u_id (users d))
            \<or> email user \<in> set (map email (users d))
            \<or> username user \<in> set (map username (users d))
            \<or> new_profile_id \<in> set (map profile_id (user_profiles d))
            \<or> new_user_id \<in> set (map profile_user_id (user_profiles d))
         then Inl IntegrityError
         else Inr (d\<lparr>users := users d @ [user], user_profiles := user_profiles d @ [profile]\<rparr>,
                   user))"

text \<open>
  \<open>add_xp\<close>: \<open>profile.xp += amount\<close>, written back to the profile's row by the flush when
  the value has changed; the UPDATE fails on a value outside the \<open>Integer\<close> column.
\<close>

definition add_xp :: "db \<Rightarrow> string \<Rightarrow> int \<Rightarrow> error + db \<times> UserProfile option" where
  "add_xp d uid amount =
     (case get_profile_by_user_id d uid of
        None \<Rightarrow> Inr (d, None)
      | Some profile \<Rightarrow>
          let profile' = profile\<lparr>xp := xp profile + amount\<rparr>
          in if xp profile' \<noteq> xp profile \<and> \<not> int4 (xp profile') then Inl DBAPIError
             else Inr (d\<lparr>user_profiles := map (\<lambda>row. if profile_id row = profile_id profile
                                                      then profile' else row) (user_profiles d)\<rparr>,
                       Some profile'))"

text \<open>
  Modelled from the spec: \<open>crud.get_public_profile_by_username\<close>, which routes/users.py
  calls and app/crud.py does not define. The spec's public-profile read path: the user
  of that name with their profile when the profile's visibility flag is public, nothing
  otherwise. The name is looked up as every other user lookup does, lower-cased.
\<close>

definition get_public_profile_by_username :: "db \<Rightarrow> string \<Rightarrow> (User \<times> UserProfile) option" where
  "get_public_profile_by_username d name =
     (case get_user_by_username d name of
        None \<Rightarrow> None
      | Some user \<Rightarrow>
          (case get_profile_by_user_id d (u_id user) of
             None \<Rightarrow> None
           | Some profile \<Rightarrow> if is_public profile then Some (user, profile) else None))"


section \<open>Seed data (app/constants.py, crud.seed_initial_projects)\<close>

text \<open>
  An entry of \<open>INITIAL_DATASET\<close>. The keys every entry has are plain fields; the keys read
  with \<open>.get\<close> (\<open>complexity\<close>, \<open>notes\<close>, \<open>time_spent_hours\<close>) are optional. The status is the
  string the catalog holds.
\<close>

record SeedProject =
  seed_id :: string
  seed_title :: string
  seed_level :: int
  seed_status :: string
  seed_category :: string
  seed_position :: "rat \<times> rat"
  seed_dependencies :: "string list"
  seed_description :: string
  seed_tech_stack :: "string list"
  seed_time_spent_hours :: "rat option"
  seed_complexity :: "int option"
  seed_notes :: "string option"

definition seed_p1_1 :: SeedProject where
  "seed_p1_1 =
     \<lparr>seed_id = ''p1_1'', seed_title = ''Network Packet Analyzer'', seed_level = 1,
      seed_status = ''done'', seed_category = ''Network'',
      seed_position = (100, 100),
      seed_dependencies = [],
      seed_description = ''Create a Wireshark-lite in Python using raw sockets.'',
      seed_tech_stack = [''Python'', ''Scapy''],
      seed_time_spent_hours = Some 12, seed_complexity = Some 2,
      seed_notes = Some (''## Key Learnings'' @ [CHR 0x0A] @ ''- Understanding OSI Layer 2 vs Layer 3'' @ [CHR 0x0A] @ ''- Raw socket manipulation in Linux requires root privileges.'')\<rparr>"

definition seed_p1_2 :: SeedProject where
  "seed_p1_2 =
     \<lparr>seed_id = ''p1_2'', seed_title = ''Custom DHCP Server'', seed_level = 1,
      seed_status = ''unlocked'', seed_category = ''Network'',
      seed_position = (350, 100),
      seed_dependencies = [''p1_1''],
      seed_description = ''Understand low-level IP assignment and DORA process.'',
      seed_tech_stack = [''Python'', ''Sockets''],
      seed_time_spent_hours = None, seed_complexity = Some 3,
      seed_notes = None\<rparr>"

definition seed_p1_3 :: SeedProject where
  "seed_p1_3 =
     \<lparr>seed_id = ''p1_3'', seed_title = ''Subnet Calculator'', seed_level = 1,
      seed_status = ''locked'', seed_category = ''Network'',
      seed_position = (600, 100),
      seed_dependencies = [''p1_2''],
      seed_description = ''VLSM and IPAM calculation tool.'',
      seed_tech_stack = [''Flask'', ''Bootstrap''],
      seed_time_spent_hours = None, seed_complexity = Some 1,
      seed_notes = None\<rparr>"

definition seed_p2_1 :: SeedProject where
  "seed_p2_1 =
     \<lparr>seed_id = ''p2_1'', seed_title = ''Homelab Infra'', seed_level = 2,
      seed_status = ''locked'', seed_category = ''Infra'',
      seed_position = (100, 300),
      seed_dependencies = [''p1_1''],
      seed_description = ''The heart of your personal infrastructure.'',
      seed_tech_stack = [''Docker'', ''Ansible'', ''Pi''],
      seed_time_spent_hours = None, seed_complexity = Some 3,
      seed_notes = None\<rparr>"

definition seed_p2_2 :: SeedProject where
  "seed_p2_2 =
     \<lparr>seed_id = ''p2_2'', seed_title = ''AWS 3-Tier App'', seed_level = 2,
      seed_status = ''locked'', seed_category = ''Cloud'',
      seed_position = (350, 300),
      seed_dependencies = [''p2_1''],
      seed_description = ''Clean Cloud deployment via Terraform (IaC).'',
      seed_tech_stack = [''AWS'', ''Terraform''],
      seed_time_spent_hours = None, seed_complexity = Some 3,
      seed_notes = None\<rparr>"

definition seed_p2_3 :: SeedProject where
  "seed_p2_3 =
     \<lparr>seed_id = ''p2_3'', seed_title = ''K8s Prod Cluster'', seed_level = 2,
      seed_status = ''locked'', seed_category = ''Cloud'',
      seed_position = (600, 300),
      seed_dependencies = [''p2_1'', ''p2_2''],
      seed_description = ''Advanced orchestration and GitOps implementation.'',
      seed_tech_stack = [''Kubernetes'', ''ArgoCD''],
      seed_time_spent_hours = None, seed_complexity = Some 5,
      seed_notes = None\<rparr>"

definition seed_p2_4 :: SeedProject where
  "seed_p2_4 =
     \<lparr>seed_id = ''p2_4'', seed_title = ''SOC-in-a-Box'', seed_level = 2,
      seed_status = ''locked'', seed_category = ''Security'',
      seed_position = (850, 300),
      seed_dependencies = [''p2_1''],
      seed_description = ''Security monitoring and threat detection.'',
      seed_tech_stack = [''ELK'', ''Wazuh''],
      seed_time_spent_hours = None, seed_complexity = Some 4,
      seed_notes = None\<rparr>"

definition seed_p3_1 :: SeedProject where
  "seed_p3_1 =
     \<lparr>seed_id = ''p3_1'', seed_title = ''Multi-Cloud K8s'', seed_level = 3,
      seed_status = ''locked'', seed_category = ''Cloud'',
      seed_position = (350, 500),
      seed_dependencies = [''p2_3''],
      seed_description = ''Cluster federation and service mesh.'',
      seed_tech_stack = [''Rancher'', ''Istio''],
      seed_time_spent_hours = None, seed_complexity = Some 5,
      seed_notes = None\<rparr>"

definition seed_p3_2 :: SeedProject where
  "seed_p3_2 =
     \<lparr>seed_id = ''p3_2'', seed_title = ''Zero Trust Network'', seed_level = 3,
      seed_status = ''locked'', seed_category = ''Security'',
      seed_position = (600, 500),
      seed_dependencies = [''p2_4''],
      seed_description = ''Modern security architecture without classic VPNs.'',
      seed_tech_stack = [''BeyondCorp'', ''WireGuard''],
      seed_time_spent_hours = None, seed_complexity = Some 4,
      seed_notes = None\<rparr>"

definition seed_p4_1 :: SeedProject where
  "seed_p4_1 =
     \<lparr>seed_id = ''p4_1'', seed_title = ''Smart Factory (Capstone)'', seed_level = 4,
      seed_status = ''locked'', seed_category = ''Expert'',
      seed_position = (475, 700),
      seed_dependencies = [''p3_1'', ''p3_2''],
      seed_description = ''The Final Boss: IT + OT Convergence.'',
      seed_tech_stack = [''NSX-T'', ''IoT'', ''5G''],
      seed_time_spent_hours = None, seed_complexity = Some 5,
      seed_notes = None\<rparr>"

definition INITIAL_DATASET :: "SeedProject list" where
  "INITIAL_DATASET = [seed_p1_1, seed_p1_2, seed_p1_3, seed_p2_1, seed_p2_2,
     seed_p2_3, seed_p2_4, seed_p3_1, seed_p3_2, seed_p4_1]"

text \<open>\<open>ProjectStatus(value)\<close>: the member with that value, ValueError when there is none.\<close>

definition ProjectStatus_of_value :: "string \<Rightarrow> error + ProjectStatus" where
  "ProjectStatus_of_value v =
     (if v = ''locked'' then Inr LOCKED
      else if v = ''unlocked'' then Inr UNLOCKED
      else if v = ''in_progress'' then Inr IN_PROGRESS
      else if v = ''done'' then Inr DONE
      else Inl ValueError)"

text \<open>
  The \<open>Project(...)\<close> the loop builds from one entry. \<open>priority\<close> is not passed and takes the
  column default; the status is the one the entry carries.
\<close>

definition seed_project :: "string \<Rightarrow> nat \<Rightarrow> SeedProject \<Rightarrow> error + Project" where
  "seed_project uid now project_data =
     (case ProjectStatus_of_value (seed_status project_data) of
        Inl e \<Rightarrow> Inl e
      | Inr st \<Rightarrow>
          Inr \<lparr>p_id = seed_id project_data, user_id = uid, title = seed_title project_data,
               level = seed_level project_data, status = st,
               category = seed_category project_data,
               description = seed_description project_data,
               position = Some (seed_position project_data),
               dependencies = Some (seed_dependencies project_data),
               tech_stack = Some (seed_tech_stack project_data),
               checklist = Some [], resources = Some [],
               complexity = seed_complexity project_data,
               priority = Some MEDIUM, github_url = None,
               p_notes = seed_notes project_data,
               time_spent_hours = (case seed_time_spent_hours project_data of
                                     None \<Rightarrow> 0 | Some h \<Rightarrow> h),
               created_at = now, completed_at = None\<rparr>)"

fun seed_projects :: "string \<Rightarrow> nat \<Rightarrow> SeedProject list \<Rightarrow> error + Project list" where
  "seed_projects uid now [] = Inr []"
| "seed_projects uid now (project_data # rest) =
     (case seed_project uid now project_data of
        Inl e \<Rightarrow> Inl e
      | Inr project \<Rightarrow>
          (case seed_projects uid now rest of
             Inl e \<Rightarrow> Inl e
           | Inr projs \<Rightarrow> Inr (project # projs)))"

text \<open>
  \<open>seed_initial_projects\<close>: every entry becomes a row of the new user, inserted by one
  flush. No resolver pass follows.
\<close>

definition seed_initial_projects :: "db \<Rightarrow> string \<Rightarrow> nat \<Rightarrow> error + db \<times> Project list" where
  "seed_initial_projects d uid now =
     (case seed_projects uid now INITIAL_DATASET of
        Inl e \<Rightarrow> Inl e
      | Inr projs \<Rightarrow>
          (case insert_projects d projs of
             Inl e \<Rightarrow> Inl e
           | Inr d' \<Rightarrow> Inr (d', projs)))"


section \<open>Routes (app/routes)\<close>

text \<open>
  A route gets the database session, the authenticated user id and validated request
  data. It returns the new database with the value the route function returns, or the
  error it raised; an \<open>HTTPException\<close> is an exception like any other, so the session is
  rolled back. What the framework does with the returned value is not part of a route.
\<close>

definition route_get_project :: "db \<Rightarrow> string \<Rightarrow> string \<Rightarrow> error + Project" where
  "route_get_project d project_id uid =
     (case get_project_by_id d project_id uid of
        None \<Rightarrow> Inl (NotFound ''Project not found'')
      | Some project \<Rightarrow> Inr project)"

definition route_update_project ::
  "db \<Rightarrow> string \<Rightarrow> string \<Rightarrow> ProjectUpdate \<Rightarrow> error + db \<times> Project" where
  "route_update_project d project_id uid project_data =
     (case update_project d project_id uid project_data of
        Inl e \<Rightarrow> Inl e
      | Inr (d', None) \<Rightarrow> Inl (NotFound ''Project not found'')
      | Inr (d', Some project) \<Rightarrow> Inr (d', project))"

definition route_delete_project :: "db \<Rightarrow> string \<Rightarrow> string \<Rightarrow> error + db \<times> string" where
  "route_delete_project d project_id uid =
     (case delete_project d project_id uid of
        Inl e \<Rightarrow> Inl e
      | Inr (d', success) \<Rightarrow>
          if \<not> success then Inl (NotFound ''Project not found'')
          else Inr (d', ''Project deleted successfully''))"

definition route_add_session ::
  "db \<Rightarrow> string \<Rightarrow> string \<Rightarrow> WorkSessionCreate \<Rightarrow> string \<Rightarrow> error + db \<times> WorkSession" where
  "route_add_session d project_id uid session_data uuid =
     (case add_session_to_project d project_id uid session_data uuid of
        Inl e \<Rightarrow> Inl e
      | Inr (d', None) \<Rightarrow> Inl (NotFound ''Project not found'')
      | Inr (d', Some session) \<Rightarrow> Inr (d', session))"

definition route_get_sessions :: "db \<Rightarrow> string \<Rightarrow> string \<Rightarrow> error + WorkSession list" where
  "route_get_sessions d project_id uid = Inr (get_sessions_by_project d project_id uid)"

text \<open>
  \<open>AddXPRequest\<close>: \<open>amount: int = Field(ge=0)\<close>. Building the request object from the body is
  where pydantic rejects a negative amount, before the route function runs.
\<close>

record AddXPRequest =
  amount :: int

definition validate_AddXPRequest :: "int \<Rightarrow> error + AddXPRequest" where
  "validate_AddXPRequest a = (if 0 \<le> a then Inr \<lparr>amount = a\<rparr> else Inl ValidationError)"

definition route_add_xp :: "db \<Rightarrow> string \<Rightarrow> AddXPRequest \<Rightarrow> error + db \<times> UserProfile" where
  "route_add_xp d uid xp_data =
     (case add_xp d uid (amount xp_data) of
        Inl e \<Rightarrow> Inl e
      | Inr (d', None) \<Rightarrow> Inl (NotFound ''Profile not found'')
      | Inr (d', Some profile) \<Rightarrow> Inr (d', profile))"

text \<open>The request \<open>POST /profile/xp\<close> with a body holding the integer \<open>a\<close>.\<close>

definition post_profile_xp :: "db \<Rightarrow> string \<Rightarrow> int \<Rightarrow> error + db \<times> UserProfile" where
  "post_profile_xp d uid a =
     (case validate_AddXPRequest a of
        Inl e \<Rightarrow> Inl e
      | Inr xp_data \<Rightarrow> route_add_xp d uid xp_data)"

text \<open>
  \<open>get_public_profile\<close> (routes/users.py). \<open>createdAt\<close> is the creation time the response
  renders with \<open>isoformat\<close>.
\<close>

record PublicProfile =
  pp_username :: string
  pp_createdAt :: nat
  pp_xp :: int
  pp_level :: int
  pp_unlockedBadges :: "string list"
  pp_avatarUrl :: "string option"
  pp_bannerUrl :: "string option"
  pp_cvConfig :: "string option"

definition route_get_public_profile :: "db \<Rightarrow> string \<Rightarrow> error + PublicProfile" where
  "route_get_public_profile d name =
     (case get_public_profile_by_username d name of
        None \<Rightarrow> Inl (NotFound ''User not found or profile is private'')
      | Some (user, profile) \<Rightarrow>
          Inr \<lparr>pp_username = username user, pp_createdAt = u_created_at user,
               pp_xp = xp profile, pp_level = profile_level profile,
               pp_unlockedBadges = unlocked_badges profile,
               pp_avatarUrl = avatar_url profile, pp_bannerUrl = banner_url profile,
               pp_cvConfig = cv_config profile\<rparr>)"

text \<open>\<open>register\<close> (routes/auth.py): the two checks, the new user, the seed catalog.\<close>

definition register ::
  "db \<Rightarrow> UserCreate \<Rightarrow> string \<Rightarrow> string \<Rightarrow> nat \<Rightarrow> (string \<Rightarrow> string) \<Rightarrow> error + db \<times> User" where
  "register d user_data new_user_id new_profile_id now get_password_hash =
     (if get_user_by_email d (uc_email user_data) \<noteq> None
      then Inl (BadRequest ''Email already registered'')
      else if get_user_by_username d (uc_username user_data) \<noteq> None
      then Inl (BadRequest ''Username already taken'')
      else
        (case create_user d user_data new_user_id new_profile_id now get_password_hash of
           Inl e \<Rightarrow> Inl e
         | Inr (d1, user) \<Rightarrow>
             (case seed_initial_projects d1 (u_id user) now of
                Inl e \<Rightarrow> Inl e
              | Inr (d2, projs) \<Rightarrow> Inr (d2, user))))"


section \<open>Notions of the statements and example data\<close>

text \<open>The ids of the user's projects that are done, as a set of the whole table.\<close>

definition completed :: "db \<Rightarrow> string \<Rightarrow> string set" where
  "completed d uid = {p_id p | p. p \<in> set (projects d) \<and> user_id p = uid \<and> status p = DONE}"

text \<open>
  The object the loop body of the resolver leaves for a project, which is the project as
  it was where the body raises.
\<close>

definition checked :: "string set \<Rightarrow> Project \<Rightarrow> Project" where
  "checked C p = (case check_one C p of Inl e \<Rightarrow> p | Inr q \<Rightarrow> q)"

text \<open>
  The tables on which the loop of the resolver raises nowhere: every project of the user
  is done or in progress, or has a list of dependencies.
\<close>

definition resolvable :: "db \<Rightarrow> string \<Rightarrow> bool" where
  "resolvable d uid =
     list_all (\<lambda>p. status p \<in> {DONE, IN_PROGRESS} \<or> dependencies p \<noteq> None)
       (filter (\<lambda>p. user_id p = uid) (projects d))"

text \<open>
  The database a delete request for the project \<open>X\<close> hands to the resolver, in the words of
  the specification: the row of \<open>X\<close> and its sessions are gone, and \<open>X\<close> is struck from the
  dependencies of every project of the user.
\<close>

definition without_dependency :: "string \<Rightarrow> Project \<Rightarrow> Project" where
  "without_dependency X p =
     p\<lparr>dependencies := map_option (filter (\<lambda>dep. dep \<noteq> X)) (dependencies p)\<rparr>"

definition purged :: "db \<Rightarrow> string \<Rightarrow> string \<Rightarrow> db" where
  "purged d X uid =
     d\<lparr>projects := map (\<lambda>p. if user_id p = uid then without_dependency X p else p)
                      (filter (\<lambda>p. p_id p \<noteq> X) (projects d)),
       work_sessions := filter (\<lambda>s. ws_project_id s \<noteq> X) (work_sessions d)\<rparr>"

text \<open>A request body that sets no field.\<close>

definition no_update :: ProjectUpdate where
  "no_update =
     \<lparr>pu_title = None, pu_level = None, pu_status = None, pu_category = None,
      pu_description = None, pu_position = None, pu_dependencies = None,
      pu_tech_stack = None, pu_complexity = None, pu_priority = None,
      pu_checklist = None, pu_resources = None, pu_github_url = None, pu_notes = None,
      pu_time_spent_hours = None, pu_completed_at = None\<rparr>"

text \<open>
  A small database for concrete instances: the projects of two users in one table, with
  a session on a project of each.
\<close>

definition example_project ::
  "string \<Rightarrow> string \<Rightarrow> ProjectStatus \<Rightarrow> string list option \<Rightarrow> Project" where
  "example_project i uid st deps =
     \<lparr>p_id = i, user_id = uid, title = ''Project'', level = 1, status = st,
      category = ''Network'', description = [], position = Some (100, 100),
      dependencies = deps, tech_stack = Some [], checklist = Some [], resources = Some [],
      complexity = None, priority = Some MEDIUM, github_url = None, p_notes = None,
      time_spent_hours = 0, created_at = 0, completed_at = None\<rparr>"

definition example_session :: "string \<Rightarrow> string \<Rightarrow> int \<Rightarrow> WorkSession" where
  "example_session i pid seconds =
     \<lparr>ws_id = i, ws_project_id = pid, start_time = 0, end_time = None,
      duration_seconds = seconds, ws_type = MANUAL, ws_notes = None, task_id = None\<rparr>"

definition example_request :: "int \<Rightarrow> WorkSessionCreate" where
  "example_request seconds =
     \<lparr>wc_start_time = 0, wc_end_time = None, wc_duration_seconds = seconds,
      wc_type = MANUAL, wc_notes = None, wc_task_id = None\<rparr>"

definition example_db :: db where
  "example_db =
     \<lparr>users = [], user_profiles = [],
      projects = [example_project ''a'' ''u1'' DONE (Some []),
                  example_project ''b'' ''u1'' LOCKED (Some [''a'']),
                  example_project ''c'' ''u1'' UNLOCKED (Some [''a'', ''zz'']),
                  example_project ''d'' ''u1'' IN_PROGRESS (Some [''c'']),
                  example_project ''e'' ''u2'' LOCKED (Some [''a'', ''d'']),
                  example_project ''f'' ''u1'' LOCKED (Some []),
                  example_project ''g'' ''u1'' LOCKED (Some [''a'', ''d''])],
      work_sessions = [example_session ''s1'' ''a'' 3600, example_session ''s2'' ''e'' 1800]\<rparr>"


section \<open>Lists and the unit of work\<close>

lemma find_unique:
  assumes "x \<in> set xs" "P x" "\<forall>y\<in>set xs. P y \<longrightarrow> y = x"
  shows "find P xs = Some x"
  using assms
proof (induction xs)
  case Nil
  then show ?case by simp
next
  case (Cons a xs)
  show ?case
  proof (cases "P a")
    case True
    then have "a = x" using Cons.prems(3) by simp
    then show ?thesis using True by simp
  next
    case False
    then have "x \<noteq> a" using Cons.prems(2) by auto
    then have "x \<in> set xs" using Cons.prems(1) by simp
    moreover have "\<forall>y\<in>set xs. P y \<longrightarrow> y = x" using Cons.prems(3) by simp
    ultimately have "find P xs = Some x" using Cons.IH Cons.prems(2) by blast
    then show ?thesis using False by simp
  qed
qed

lemma find_none: "\<forall>y\<in>set xs. \<not> P y \<Longrightarrow> find P xs = None"
  by (simp add: find_None_iff)

lemma find_map_o: "find P (map f xs) = map_option f (find (\<lambda>x. P (f x)) xs)"
  by (induction xs) auto

lemma find_SomeD: "find P xs = Some x \<Longrightarrow> x \<in> set xs \<and> P x"
  by (induction xs) (auto split: if_splits)

lemma distinct_ids_eq:
  "distinct (map p_id rows) \<Longrightarrow> x \<in> set rows \<Longrightarrow> y \<in> set rows \<Longrightarrow> p_id x = p_id y \<Longrightarrow> x = y"
  by (auto simp: distinct_map dest: inj_onD)

lemma set_get_projects_by_user:
  "set (get_projects_by_user d uid) = {p \<in> set (projects d). user_id p = uid}"
  by (auto simp: get_projects_by_user_def)

lemma get_project_by_idD:
  "get_project_by_id d pid uid = Some x \<Longrightarrow> x \<in> set (projects d) \<and> p_id x = pid \<and> user_id x = uid"
  unfolding get_project_by_id_def by (drule find_SomeD) simp

lemma get_project_by_idI:
  assumes "distinct (map p_id (projects d))" "x \<in> set (projects d)" "p_id x = pid" "user_id x = uid"
  shows "get_project_by_id d pid uid = Some x"
  unfolding get_project_by_id_def
proof (rule find_unique)
  show "x \<in> set (projects d)" by (rule assms(2))
  show "p_id x = pid \<and> user_id x = uid" using assms(3,4) by simp
  show "\<forall>y\<in>set (projects d). p_id y = pid \<and> user_id y = uid \<longrightarrow> y = x"
  proof (intro ballI impI)
    fix y assume "y \<in> set (projects d)" "p_id y = pid \<and> user_id y = uid"
    then have "y \<in> set (projects d)" "p_id y = p_id x" using assms(3) by simp_all
    then show "y = x" by (rule distinct_ids_eq [OF assms(1) _ assms(2)])
  qed
qed

lemma for_each_Inr:
  "\<forall>x\<in>set xs. body x = Inr (f x) \<Longrightarrow> for_each body xs = Inr (map f xs)"
  by (induction xs) simp_all

lemma for_each_Inl:
  assumes "\<exists>x\<in>set xs. body x = Inl e" "\<forall>x\<in>set xs. body x = Inl e \<or> (\<exists>y. body x = Inr y)"
  shows "for_each body xs = Inl e"
  using assms
proof (induction xs)
  case Nil
  then show ?case by simp
next
  case (Cons a xs)
  from Cons.prems(2) have "body a = Inl e \<or> (\<exists>y. body a = Inr y)" by simp
  then show ?case
  proof
    assume "body a = Inl e"
    then show ?thesis by simp
  next
    assume "\<exists>y. body a = Inr y"
    then obtain y where y: "body a = Inr y" ..
    then have "body a \<noteq> Inl e" by simp
    then have "\<exists>x\<in>set xs. body x = Inl e" using Cons.prems(1) by auto
    moreover have "\<forall>x\<in>set xs. body x = Inl e \<or> (\<exists>y. body x = Inr y)" using Cons.prems(2) by simp
    ultimately have "for_each body xs = Inl e" by (rule Cons.IH)
    then show ?thesis using y by simp
  qed
qed

lemma flush_find:
  assumes d: "distinct (map p_id rows)" and o: "set objs = {p \<in> set rows. user_id p = uid}"
    and f: "\<forall>p. p_id (f p) = p_id p" and r: "row \<in> set rows"
  shows "find (\<lambda>obj. p_id obj = p_id row) (map f objs) = (if user_id row = uid then Some (f row) else None)"
proof (cases "user_id row = uid")
  case True
  have "find (\<lambda>x. p_id x = p_id row) objs = Some row"
  proof (rule find_unique)
    show "row \<in> set objs" using o r True by simp
    show "p_id row = p_id row" by simp
    show "\<forall>y\<in>set objs. p_id y = p_id row \<longrightarrow> y = row"
    proof (intro ballI impI)
      fix y assume "y \<in> set objs" "p_id y = p_id row"
      moreover from this o have "y \<in> set rows" by simp
      ultimately show "y = row" using distinct_ids_eq[OF d _ r] by blast
    qed
  qed
  then show ?thesis using True f by (simp add: find_map_o)
next
  case False
  have "\<forall>y\<in>set objs. p_id y \<noteq> p_id row"
  proof
    fix y assume y: "y \<in> set objs"
    then have "y \<in> set rows" "user_id y = uid" using o by auto
    then show "p_id y \<noteq> p_id row" using False distinct_ids_eq[OF d _ r] by blast
  qed
  then have "find (\<lambda>x. p_id x = p_id row) objs = None" by (rule find_none)
  then show ?thesis using False f by (simp add: find_map_o)
qed

lemma flush_projects_rows:
  assumes "distinct (map p_id rows)" "set objs = {p \<in> set rows. user_id p = uid}"
    and "\<forall>p. p_id (f p) = p_id p"
  shows "flush_projects (map f objs) rows = map (\<lambda>row. if user_id row = uid then f row else row) rows"
  unfolding flush_projects_def
  by (rule map_cong [OF refl]) (simp add: flush_find [OF assms])

lemma flush_projects_one:
  assumes "distinct (map p_id rows)" "x \<in> set rows" "p_id y = p_id x"
  shows "flush_projects [y] rows = map (\<lambda>row. if row = x then y else row) rows"
  unfolding flush_projects_def
proof (rule map_cong [OF refl])
  fix row assume r: "row \<in> set rows"
  have "p_id row = p_id x \<Longrightarrow> row = x"
    by (rule distinct_ids_eq [OF assms(1) r assms(2)])
  then have "p_id x = p_id row \<longleftrightarrow> row = x" by auto
  then show "(case find (\<lambda>obj. p_id obj = p_id row) [y] of None \<Rightarrow> row | Some obj \<Rightarrow> obj)
     = (if row = x then y else row)"
    using assms(3) by simp
qed

section \<open>The loop body of the resolver\<close>

lemma check_one_Inr:
  "status p \<in> {DONE, IN_PROGRESS} \<or> dependencies p \<noteq> None \<Longrightarrow> check_one C p = Inr (checked C p)"
  by (auto simp: checked_def check_one_def Let_def)

lemma check_one_Inl:
  "\<not> (status p \<in> {DONE, IN_PROGRESS} \<or> dependencies p \<noteq> None) \<Longrightarrow> check_one C p = Inl TypeError"
  by (auto simp: check_one_def)

lemma checked_active: "status p \<in> {DONE, IN_PROGRESS} \<Longrightarrow> checked C p = p"
  by (simp add: checked_def check_one_def)

lemma checked_null: "dependencies p = None \<Longrightarrow> checked C p = p"
  by (simp add: checked_def check_one_def)

lemma checked_other:
  assumes "status p \<notin> {DONE, IN_PROGRESS}" "dependencies p = Some deps"
  shows "checked C p = p\<lparr>status := if (\<forall>dep \<in> set deps. dep \<in> C) then UNLOCKED else LOCKED\<rparr>"
proof -
  from assms have "status p = LOCKED \<or> status p = UNLOCKED" by (cases "status p") auto
  then show ?thesis
  proof
    assume l: "status p = LOCKED"
    then have "p\<lparr>status := LOCKED\<rparr> = p" by simp
    then show ?thesis using l assms(2) by (simp add: checked_def check_one_def Let_def list_all_iff)
  next
    assume u: "status p = UNLOCKED"
    then have "p\<lparr>status := UNLOCKED\<rparr> = p" by simp
    then show ?thesis using u assms(2) by (simp add: checked_def check_one_def Let_def list_all_iff)
  qed
qed

lemma checked_fields:
  "p_id (checked C p) = p_id p"
  "user_id (checked C p) = user_id p"
  "dependencies (checked C p) = dependencies p"
  "time_spent_hours (checked C p) = time_spent_hours p"
  by (simp_all add: checked_def check_one_def Let_def split: option.splits)

lemma status_checked_DONE: "status (checked C p) = DONE \<longleftrightarrow> status p = DONE"
  by (cases "status p") (simp_all add: checked_def check_one_def Let_def split: option.splits)

lemma status_checked_active:
  "status (checked C p) \<in> {DONE, IN_PROGRESS} \<longleftrightarrow> status p \<in> {DONE, IN_PROGRESS}"
  by (cases "status p") (simp_all add: checked_def check_one_def Let_def split: option.splits)

lemma checked_idem: "checked C (checked C p) = checked C p"
proof (cases "status p \<in> {DONE, IN_PROGRESS}")
  case True
  then show ?thesis by (simp add: checked_active)
next
  case False
  show ?thesis
  proof (cases "dependencies p")
    case None
    then show ?thesis by (simp add: checked_null)
  next
    case (Some deps)
    have a: "status (checked C p) \<notin> {DONE, IN_PROGRESS}"
      unfolding status_checked_active by (rule False)
    have d: "dependencies (checked C p) = Some deps" by (simp add: checked_fields Some)
    show ?thesis
      by (subst checked_other [OF a d]) (simp add: checked_other [OF False Some])
  qed
qed

section \<open>One pass over the table\<close>

lemma completed_ids_eq:
  "set (map p_id (filter (\<lambda>p. status p = DONE) (get_projects_by_user d uid))) = completed d uid"
  by (auto simp: completed_def set_get_projects_by_user)

lemma in_completed:
  "dep \<in> completed d uid \<longleftrightarrow> (\<exists>q \<in> set (projects d). user_id q = uid \<and> p_id q = dep \<and> status q = DONE)"
  by (auto simp: completed_def)

lemma completed_code:
  "completed d uid = set (map p_id (filter (\<lambda>p. user_id p = uid \<and> status p = DONE) (projects d)))"
  by (auto simp: completed_def)

lemma resolvable_iff:
  "resolvable d uid \<longleftrightarrow>
     (\<forall>p\<in>set (projects d). user_id p = uid \<longrightarrow> status p \<in> {DONE, IN_PROGRESS} \<or> dependencies p \<noteq> None)"
  by (auto simp: resolvable_def list_all_iff)

lemma check_db:
  assumes dist: "distinct (map p_id (projects d))" and res: "resolvable d uid"
  shows "check_project_dependencies d uid =
    Inr (d\<lparr>projects := map (\<lambda>row. if user_id row = uid then checked (completed d uid) row else row) (projects d)\<rparr>)"
proof -
  let ?C = "completed d uid"
  have "\<forall>p\<in>set (get_projects_by_user d uid). check_one ?C p = Inr (checked ?C p)"
    using res by (simp add: set_get_projects_by_user resolvable_iff check_one_Inr)
  then have loop: "for_each (check_one ?C) (get_projects_by_user d uid)
      = Inr (map (checked ?C) (get_projects_by_user d uid))"
    by (rule for_each_Inr)
  have "flush_projects (map (checked ?C) (get_projects_by_user d uid)) (projects d) =
     map (\<lambda>row. if user_id row = uid then checked ?C row else row) (projects d)"
    by (rule flush_projects_rows [OF dist set_get_projects_by_user]) (simp add: checked_fields)
  then show ?thesis
    unfolding check_project_dependencies_def Let_def completed_ids_eq loop by simp
qed

lemma check_raises:
  assumes "\<not> resolvable d uid"
  shows "check_project_dependencies d uid = Inl TypeError"
proof -
  let ?C = "completed d uid"
  from assms obtain p where p: "p \<in> set (projects d)" "user_id p = uid"
    "\<not> (status p \<in> {DONE, IN_PROGRESS} \<or> dependencies p \<noteq> None)"
    unfolding resolvable_iff by blast
  have "for_each (check_one ?C) (get_projects_by_user d uid) = Inl TypeError"
  proof (rule for_each_Inl)
    have "p \<in> set (get_projects_by_user d uid)" using p by (simp add: set_get_projects_by_user)
    moreover have "check_one ?C p = Inl TypeError" by (rule check_one_Inl [OF p(3)])
    ultimately show "\<exists>x\<in>set (get_projects_by_user d uid). check_one ?C x = Inl TypeError" ..
    show "\<forall>x\<in>set (get_projects_by_user d uid).
        check_one ?C x = Inl TypeError \<or> (\<exists>y. check_one ?C x = Inr y)"
    proof
      fix x
      show "check_one ?C x = Inl TypeError \<or> (\<exists>y. check_one ?C x = Inr y)"
        using check_one_Inl [of x ?C] check_one_Inr [of x ?C] by blast
    qed
  qed
  then show ?thesis
    unfolding check_project_dependencies_def Let_def completed_ids_eq by simp
qed

lemma row_props:
  "p_id (if user_id p = uid then checked C p else p) = p_id p"
  "user_id (if user_id p = uid then checked C p else p) = user_id p"
  "dependencies (if user_id p = uid then checked C p else p) = dependencies p"
  "status (if user_id p = uid then checked C p else p) = DONE \<longleftrightarrow> status p = DONE"
  by (simp_all add: checked_fields status_checked_DONE)

lemma row_active:
  "status (if user_id p = uid then checked C p else p) \<in> {DONE, IN_PROGRESS}
     \<longleftrightarrow> status p \<in> {DONE, IN_PROGRESS}"
  using status_checked_active [of C p] by (simp add: status_checked_DONE)

lemma row_idem:
  "(\<lambda>row. if user_id row = uid then checked C row else row)
     ((\<lambda>row. if user_id row = uid then checked C row else row) p) =
   (\<lambda>row. if user_id row = uid then checked C row else row) p"
  by (simp add: checked_fields checked_idem)

lemma bex_set_map: "(\<exists>q\<in>set (map g xs). P q) \<longleftrightarrow> (\<exists>q\<in>set xs. P (g q))"
  unfolding set_map by blast

lemma ball_set_map: "(\<forall>q\<in>set (map g xs). P q) \<longleftrightarrow> (\<forall>q\<in>set xs. P (g q))"
  unfolding set_map by blast

lemma projects_update_eq: "projects (d\<lparr>projects := xs\<rparr>) = xs"
  by simp

lemma completed_after_pass:
  "completed (d\<lparr>projects := map (\<lambda>row. if user_id row = uid then checked C row else row) (projects d)\<rparr>) uid
   = completed d uid"
proof (rule set_eqI)
  fix x
  let ?g = "\<lambda>row. if user_id row = uid then checked C row else row"
  have "x \<in> completed (d\<lparr>projects := map ?g (projects d)\<rparr>) uid \<longleftrightarrow>
        (\<exists>q \<in> set (projects d). user_id (?g q) = uid \<and> p_id (?g q) = x \<and> status (?g q) = DONE)"
    unfolding in_completed projects_update_eq bex_set_map ..
  also have "\<dots> \<longleftrightarrow> (\<exists>q \<in> set (projects d). user_id q = uid \<and> p_id q = x \<and> status q = DONE)"
    unfolding row_props ..
  finally show "x \<in> completed (d\<lparr>projects := map ?g (projects d)\<rparr>) uid \<longleftrightarrow> x \<in> completed d uid"
    unfolding in_completed .
qed

lemma resolvable_after_pass:
  "resolvable (d\<lparr>projects := map (\<lambda>row. if user_id row = uid then checked C row else row) (projects d)\<rparr>) uid
   = resolvable d uid"
  unfolding resolvable_iff projects_update_eq ball_set_map row_props row_active ..

lemmas example_simps = example_db_def example_project_def example_session_def

section \<open>The resolver pass\<close>

lemma resolver_pass_rows:
  assumes dist: "distinct (map p_id (projects d))" and res: "resolvable d uid"
  shows "\<exists>d'. check_project_dependencies d uid = Inr d' \<and>
    length (projects d') = length (projects d) \<and>
    users d' = users d \<and> user_profiles d' = user_profiles d \<and>
    work_sessions d' = work_sessions d \<and>
    (\<forall>i < length (projects d).
       (user_id (projects d ! i) \<noteq> uid \<longrightarrow> projects d' ! i = projects d ! i) \<and>
       (status (projects d ! i) \<in> {DONE, IN_PROGRESS} \<longrightarrow> projects d' ! i = projects d ! i) \<and>
       (\<forall>deps. user_id (projects d ! i) = uid \<and> status (projects d ! i) \<notin> {DONE, IN_PROGRESS}
            \<and> dependencies (projects d ! i) = Some deps \<longrightarrow>
          projects d' ! i =
            (projects d ! i)\<lparr>status :=
               if (\<forall>dep \<in> set deps.
                     \<exists>q \<in> set (projects d). user_id q = uid \<and> p_id q = dep \<and> status q = DONE)
               then UNLOCKED else LOCKED\<rparr>))"
proof -
  let ?g = "\<lambda>row. if user_id row = uid then checked (completed d uid) row else row"
  let ?d' = "d\<lparr>projects := map ?g (projects d)\<rparr>"
  have db: "check_project_dependencies d uid = Inr ?d'" by (rule check_db [OF dist res])
  have each: "\<And>i. i < length (projects d) \<Longrightarrow> projects ?d' ! i = ?g (projects d ! i)"
    by simp
  have other: "\<And>p deps. status p \<notin> {DONE, IN_PROGRESS} \<Longrightarrow> dependencies p = Some deps \<Longrightarrow>
      checked (completed d uid) p =
      p\<lparr>status := if (\<forall>dep \<in> set deps.
                     \<exists>q \<in> set (projects d). user_id q = uid \<and> p_id q = dep \<and> status q = DONE)
               then UNLOCKED else LOCKED\<rparr>"
    by (simp add: checked_other in_completed)
  have rows: "\<forall>i < length (projects d).
       (user_id (projects d ! i) \<noteq> uid \<longrightarrow> projects ?d' ! i = projects d ! i) \<and>
       (status (projects d ! i) \<in> {DONE, IN_PROGRESS} \<longrightarrow> projects ?d' ! i = projects d ! i) \<and>
       (\<forall>deps. user_id (projects d ! i) = uid \<and> status (projects d ! i) \<notin> {DONE, IN_PROGRESS}
            \<and> dependencies (projects d ! i) = Some deps \<longrightarrow>
          projects ?d' ! i =
            (projects d ! i)\<lparr>status :=
               if (\<forall>dep \<in> set deps.
                     \<exists>q \<in> set (projects d). user_id q = uid \<and> p_id q = dep \<and> status q = DONE)
               then UNLOCKED else LOCKED\<rparr>)"
    using each other by (simp add: checked_active)
  show ?thesis
  proof (intro exI [of _ ?d'] conjI)
    show "check_project_dependencies d uid = Inr ?d'" by (rule db)
    show "length (projects ?d') = length (projects d)" by simp
    show "users ?d' = users d" by simp
    show "user_profiles ?d' = user_profiles d" by simp
    show "work_sessions ?d' = work_sessions d" by simp
  qed (rule rows)
qed

lemma resolver_pass_returns_iff:
  assumes "distinct (map p_id (projects d))"
  shows "(\<exists>d'. check_project_dependencies d uid = Inr d') \<longleftrightarrow> resolvable d uid"
    and "check_project_dependencies d uid = Inl TypeError \<longleftrightarrow> \<not> resolvable d uid"
proof -
  show "(\<exists>d'. check_project_dependencies d uid = Inr d') \<longleftrightarrow> resolvable d uid"
  proof (cases "resolvable d uid")
    case True
    then show ?thesis using check_db [OF assms True] by simp
  next
    case False
    then show ?thesis using check_raises [OF False] by simp
  qed
  show "check_project_dependencies d uid = Inl TypeError \<longleftrightarrow> \<not> resolvable d uid"
  proof (cases "resolvable d uid")
    case True
    then show ?thesis using check_db [OF assms True] by simp
  next
    case False
    then show ?thesis using check_raises [OF False] by simp
  qed
qed

text \<open>
  Claim C1. The claim has the pass never fail. The pass raises TypeError on a project of
  the user that is locked or unlocked and whose \<open>dependencies\<close> column holds null. The
  update request with the body \<open>{"dependencies": null}\<close> for the locked project \<open>b\<close> of
  the example ends with that exception, raised by the pass that follows the flush: the
  pass on the flushed table raises it.
\<close>

theorem resolver_pass_null_dependencies:
  "update_project example_db ''b'' ''u1'' (no_update\<lparr>pu_dependencies := Some None\<rparr>) = Inl TypeError \<and>
   check_project_dependencies
     (example_db\<lparr>projects := flush_projects [example_project ''b'' ''u1'' LOCKED None]
                                (projects example_db)\<rparr>) ''u1'' = Inl TypeError"
proof -
  let ?d1 = "example_db\<lparr>projects := flush_projects [example_project ''b'' ''u1'' LOCKED None]
                                (projects example_db)\<rparr>"
  have "\<not> resolvable ?d1 ''u1''"
    by (simp add: resolvable_def flush_projects_def example_simps)
  then have pass: "check_project_dependencies ?d1 ''u1'' = Inl TypeError"
    by (rule check_raises)
  have get: "get_project_by_id example_db ''b'' ''u1'' = Some (example_project ''b'' ''u1'' LOCKED (Some [''a'']))"
    by (simp add: get_project_by_id_def example_simps)
  have none: "sessions example_db (example_project ''b'' ''u1'' LOCKED (Some [''a''])) = []"
    by (simp add: sessions_def example_simps)
  have flush: "flush_update (no_update\<lparr>pu_dependencies := Some None\<rparr>) = None"
    by (simp add: flush_update_def no_update_def is_value_def is_null_def)
  have obj: "apply_update (no_update\<lparr>pu_dependencies := Some None\<rparr>)
      (example_project ''b'' ''u1'' LOCKED (Some [''a''])) = example_project ''b'' ''u1'' LOCKED None"
    by (simp add: apply_update_def no_update_def set_field_def set_column_def example_project_def)
  have "update_project example_db ''b'' ''u1'' (no_update\<lparr>pu_dependencies := Some None\<rparr>) = Inl TypeError"
    by (simp add: update_project_def get none flush obj pass)
  with pass show ?thesis by simp
qed

text \<open>
  Claim C2. The resolver pass is idempotent: running the pass and running it again on
  the database it returned has the outcome of running it once. When the first pass
  returns a database, the second returns that same database; when the first pass raises,
  there is no database to run a second pass on and the outcome is the exception.
\<close>

theorem resolver_idempotent:
  assumes "distinct (map p_id (projects d))"
  shows "(case check_project_dependencies d uid of
            Inl e \<Rightarrow> Inl e
          | Inr d' \<Rightarrow> check_project_dependencies d' uid) = check_project_dependencies d uid"
proof (cases "resolvable d uid")
  case False
  then have "check_project_dependencies d uid = Inl TypeError" by (rule check_raises)
  then show ?thesis by simp
next
  case True
  let ?C = "completed d uid"
  let ?g = "\<lambda>row. if user_id row = uid then checked ?C row else row"
  let ?d' = "d\<lparr>projects := map ?g (projects d)\<rparr>"
  have db: "check_project_dependencies d uid = Inr ?d'" by (rule check_db [OF assms True])
  have ids: "map p_id (projects ?d') = map p_id (projects d)"
    unfolding projects_update_eq map_map o_def row_props ..
  have dist: "distinct (map p_id (projects ?d'))"
    unfolding ids by (rule assms)
  have res: "resolvable ?d' uid"
    unfolding resolvable_after_pass by (rule True)
  have "check_project_dependencies ?d' uid =
     Inr (?d'\<lparr>projects := map (\<lambda>row. if user_id row = uid then checked (completed ?d' uid) row else row) (projects ?d')\<rparr>)"
    by (rule check_db [OF dist res])
  also have "\<dots> = Inr (?d'\<lparr>projects := map ?g (projects ?d')\<rparr>)"
    unfolding completed_after_pass ..
  also have "\<dots> = Inr ?d'"
  proof -
    have "map ?g (map ?g (projects d)) = map ?g (projects d)"
      unfolding map_map o_def row_idem ..
    then show ?thesis unfolding projects_update_eq by simp
  qed
  finally show ?thesis unfolding db by simp
qed

theorem resolver_idempotent_witness:
  "distinct (map p_id (projects example_db)) \<and>
   (\<exists>d'. check_project_dependencies example_db ''u1'' = Inr d' \<and>
         map status (projects d') = [DONE, UNLOCKED, LOCKED, IN_PROGRESS, LOCKED, UNLOCKED, LOCKED] \<and>
         check_project_dependencies d' ''u1'' = Inr d')"
proof -
  have h: "distinct (map p_id (projects example_db))"
    by (simp add: example_simps)
  have r: "resolvable example_db ''u1''"
    by (simp add: resolvable_def example_simps)
  let ?d' = "example_db\<lparr>projects := map (\<lambda>row. if user_id row = ''u1''
      then checked (completed example_db ''u1'') row else row) (projects example_db)\<rparr>"
  have d': "check_project_dependencies example_db ''u1'' = Inr ?d'"
    by (rule check_db [OF h r])
  have c: "completed example_db ''u1'' = {''a''}"
    by (simp add: completed_code example_simps)
  have s: "map status (projects ?d') = [DONE, UNLOCKED, LOCKED, IN_PROGRESS, LOCKED, UNLOCKED, LOCKED]"
    unfolding c by (simp add: checked_def check_one_def example_simps)
  from resolver_idempotent [OF h, of "''u1''"] have i: "check_project_dependencies ?d' ''u1'' = Inr ?d'"
    unfolding d' by simp
  show ?thesis
  proof (intro conjI exI [of _ ?d'])
    show "distinct (map p_id (projects example_db))" by (rule h)
    show "check_project_dependencies example_db ''u1'' = Inr ?d'" by (rule d')
    show "map status (projects ?d') = [DONE, UNLOCKED, LOCKED, IN_PROGRESS, LOCKED, UNLOCKED, LOCKED]"
      by (rule s)
    show "check_project_dependencies ?d' ''u1'' = Inr ?d'" by (rule i)
  qed
qed

end
